theory Spec2Isabelle
  imports Complex_Main "HOL-Library.Word"
begin

section \<open>Data model of the questionnaire analysis\<close>

text \<open>
  The program (\<^verbatim>\<open>src/hw5.py\<close>, class \<^verbatim>\<open>QuestionnaireAnalysis\<close>) keeps one pandas
  DataFrame in \<^verbatim>\<open>self.data\<close>, built from a JSON array of objects. A JSON value that
  can stand in a column is a number, a string or null; pandas writes null as NaN. Numbers
  are kept as exact rationals: the rounding of 64-bit floats is not part of this model, so
  a mean of the model is the exact mean, which the code's float mean approximates. The two
  can differ in their floor (a float mean may round up to a whole number that the exact
  mean stays below), so the floor of a mean is stated for whole-number answers between 0
  and 100 only: there the float sum is exact, and the quotient, when it is not whole, is
  at least one fifth away from the next whole number.
\<close>

datatype cell = Num rat | Str string | NaN

text \<open>
  The timestamp column holds raw cells as loaded; \<^verbatim>\<open>pd.to_datetime\<close> turns it into
  points in time (here: integers on some fixed time scale) or NaT.
\<close>

datatype stamp = Raw cell | Time int | NaT

text \<open>One row of the frame: the nine columns of a questionnaire record.\<close>

record row =
  age :: cell
  timestamp :: stamp
  email :: cell
  gender :: cell
  q1 :: cell
  q2 :: cell
  q3 :: cell
  q4 :: cell
  q5 :: cell

text \<open>
  A DataFrame is the list of its rows in order, each with its index label. The frame that
  \<^verbatim>\<open>read_data\<close> builds is labelled 0, 1, 2, ...; filtering keeps the labels of the
  rows that stay, so labels are always pairwise different.
\<close>

type_synonym 'r frame = "(nat \<times> 'r) list"

datatype error =
    ValueError_not_loaded
  | TypeError_not_a_frame
  | AttributeError_split
  | IndexError
  | IntCastingNaNError
  | ValueError_lossless_cast

section \<open>Email filter\<close>

text \<open>
  \<^verbatim>\<open>email.split('@')\<close>: Python's \<^verbatim>\<open>str.split\<close> with a one-character separator. The
  result is never empty; the third case of the inner \<open>case\<close> cannot be reached.
\<close>

fun split :: "char \<Rightarrow> string \<Rightarrow> string list" where
  "split c [] = [[]]"
| "split c (x # xs) =
     (if x = c then [] # split c xs
      else (case split c xs of p # ps \<Rightarrow> (x # p) # ps | [] \<Rightarrow> [[x]]))"

definition startswith :: "string \<Rightarrow> char \<Rightarrow> bool" where
  "startswith s c = (case s of [] \<Rightarrow> False | x # _ \<Rightarrow> x = c)"

definition endswith :: "string \<Rightarrow> char \<Rightarrow> bool" where
  "endswith s c = (case rev s of [] \<Rightarrow> False | x # _ \<Rightarrow> x = c)"

text \<open>
  The local function \<^verbatim>\<open>is_valid_email\<close> of \<^verbatim>\<open>remove_rows_without_mail\<close>.
  \<^verbatim>\<open>pd.isna\<close> is true of NaN only; a number has no method \<^verbatim>\<open>split\<close>, so the call
  raises AttributeError there. The last conjunct \<^verbatim>\<open>domain[0] != '.'\<close> is evaluated
  only when the three before it hold (Python's \<^verbatim>\<open>and\<close> stops at the first false one).
\<close>

definition is_valid_email :: "cell \<Rightarrow> error + bool" where
  "is_valid_email mail =
     (case mail of
        NaN \<Rightarrow> Inr False
      | Num _ \<Rightarrow> Inl AttributeError_split
      | Str s \<Rightarrow>
          (let parts = split CHR ''@'' s in
           if length parts \<noteq> 2 then Inr False
           else
             (let domain = parts ! 1 in
              if CHR ''.'' \<notin> set domain then Inr False
              else if startswith s CHR ''.'' then Inr False
              else if endswith s CHR ''.'' then Inr False
              else (case domain of [] \<Rightarrow> Inl IndexError | d # _ \<Rightarrow> Inr (d \<noteq> CHR ''.'')))))"

text \<open>
  \<^verbatim>\<open>Series.apply(f)\<close>: \<open>f\<close> on every element in order; the first exception ends the
  call.
\<close>

fun series_apply :: "('a \<Rightarrow> error + 'b) \<Rightarrow> 'a list \<Rightarrow> error + 'b list" where
  "series_apply f [] = Inr []"
| "series_apply f (x # xs) =
     (case f x of
        Inl e \<Rightarrow> Inl e
      | Inr y \<Rightarrow> (case series_apply f xs of Inl e \<Rightarrow> Inl e | Inr ys \<Rightarrow> Inr (y # ys)))"

text \<open>\<^verbatim>\<open>df[mask]\<close>: the rows whose entry in the mask is true, with their labels.\<close>

definition boolean_mask :: "'r frame \<Rightarrow> bool list \<Rightarrow> 'r frame" where
  "boolean_mask df flags = map fst (filter snd (zip df flags))"

text \<open>\<^verbatim>\<open>df.reset_index(drop=True)\<close>: the same rows, labelled from zero.\<close>

definition reset_index :: "'r frame \<Rightarrow> 'r frame" where
  "reset_index df = zip [0 ..< length df] (map snd df)"

text \<open>
  \<^verbatim>\<open>remove_rows_without_mail\<close>. The argument is \<^verbatim>\<open>self.data\<close>: \<open>None\<close> before
  \<^verbatim>\<open>read_data\<close>, which is not a DataFrame.
\<close>

definition remove_rows_without_mail :: "row frame option \<Rightarrow> error + row frame" where
  "remove_rows_without_mail data =
     (case data of
        None \<Rightarrow> Inl TypeError_not_a_frame
      | Some df \<Rightarrow>
          (case series_apply is_valid_email (map (\<lambda>(i, r). email r) df) of
             Inl e \<Rightarrow> Inl e
           | Inr flags \<Rightarrow> Inr (reset_index (boolean_mask df flags))))"

text \<open>
  The validity rule in the words of the specification: exactly one \<^verbatim>\<open>@\<close>; the domain
  substring after the \<^verbatim>\<open>@\<close> contains a dot; the email does not start or end with a
  dot; the first character of the domain is not a dot.
\<close>

definition domain_after_at :: "string \<Rightarrow> string" where
  "domain_after_at s = drop 1 (dropWhile (\<lambda>x. x \<noteq> CHR ''@'') s)"

fun spec_valid_email :: "cell \<Rightarrow> bool" where
  "spec_valid_email (Str s) =
     (count_list s CHR ''@'' = 1 \<and>
      CHR ''.'' \<in> set (domain_after_at s) \<and>
      take 1 s \<noteq> ''.'' \<and>
      take 1 (rev s) \<noteq> ''.'' \<and>
      take 1 (domain_after_at s) \<noteq> ''.'')"
| "spec_valid_email _ = False"

definition is_text :: "cell \<Rightarrow> bool" where
  "is_text c = (case c of Num _ \<Rightarrow> False | _ \<Rightarrow> True)"

section \<open>Numeric coercion and means\<close>

text \<open>
  \<^verbatim>\<open>pd.to_numeric(column, errors='coerce')\<close>, cell by cell: a number stays, null stays
  missing, a string becomes the number it spells or NaN when it spells none. Which strings
  spell a number is decided by pandas' parser, a parameter \<open>parse\<close> of the model.
\<close>

definition to_numeric :: "(string \<Rightarrow> rat option) \<Rightarrow> cell \<Rightarrow> cell" where
  "to_numeric parse c =
     (case c of
        Num x \<Rightarrow> Num x
      | Str s \<Rightarrow> (case parse s of Some x \<Rightarrow> Num x | None \<Rightarrow> NaN)
      | NaN \<Rightarrow> NaN)"

definition isna :: "cell \<Rightarrow> bool" where
  "isna c = (case c of NaN \<Rightarrow> True | _ \<Rightarrow> False)"

text \<open>The five answer columns, \<^verbatim>\<open>['q1', 'q2', 'q3', 'q4', 'q5']\<close>, of one row.\<close>

definition questions :: "row \<Rightarrow> cell list" where
  "questions r = [q1 r, q2 r, q3 r, q4 r, q5 r]"

definition coerce_questions :: "(string \<Rightarrow> rat option) \<Rightarrow> row \<Rightarrow> row" where
  "coerce_questions parse r =
     r\<lparr>q1 := to_numeric parse (q1 r), q2 := to_numeric parse (q2 r),
       q3 := to_numeric parse (q3 r), q4 := to_numeric parse (q4 r),
       q5 := to_numeric parse (q5 r)\<rparr>"

definition coerce_frame :: "(string \<Rightarrow> rat option) \<Rightarrow> row frame \<Rightarrow> row frame" where
  "coerce_frame parse df = map (\<lambda>(i, r). (i, coerce_questions parse r)) df"

text \<open>
  \<^verbatim>\<open>.mean()\<close> of pandas skips missing values and is NaN (here \<open>None\<close>) when nothing is
  left. It is used along a row (\<^verbatim>\<open>axis=1\<close>) and along a column of a group.
\<close>

fun present :: "cell list \<Rightarrow> rat list" where
  "present [] = []"
| "present (Num x # cs) = x # present cs"
| "present (c # cs) = present cs"

definition mean :: "cell list \<Rightarrow> rat option" where
  "mean cs =
     (let xs = present cs in
      if xs = [] then None else Some (sum_list xs / of_nat (length xs)))"

definition nan_count :: "cell list \<Rightarrow> nat" where
  "nan_count cs = length (filter isna cs)"

section \<open>Imputation of missing answers\<close>

text \<open>\<^verbatim>\<open>series.fillna(m)\<close> on one cell; filling with NaN changes nothing.\<close>

definition fillna :: "rat option \<Rightarrow> cell \<Rightarrow> cell" where
  "fillna m c =
     (case c of
        NaN \<Rightarrow> (case m of Some v \<Rightarrow> Num v | None \<Rightarrow> NaN)
      | _ \<Rightarrow> c)"

text \<open>
  \<^verbatim>\<open>means[i]\<close>: the entry of the series of means with label \<open>i\<close>. The series has
  the labels of the frame, so the label is always found.
\<close>

definition means_at :: "(nat \<times> rat option) list \<Rightarrow> nat \<Rightarrow> rat option" where
  "means_at means i = (case map_of means i of Some m \<Rightarrow> m | None \<Rightarrow> None)"

definition set_questions :: "row \<Rightarrow> cell list \<Rightarrow> row" where
  "set_questions r cs =
     (case cs of
        [a, b, c, d, e] \<Rightarrow> r\<lparr>q1 := a, q2 := b, q3 := c, q4 := d, q5 := e\<rparr>
      | _ \<Rightarrow> r)"

text \<open>\<^verbatim>\<open>filled_df.loc[i, question_cols] = values\<close>, for pairwise different labels.\<close>

definition loc_set_questions :: "nat \<Rightarrow> cell list \<Rightarrow> row frame \<Rightarrow> row frame" where
  "loc_set_questions i cs df =
     map (\<lambda>(j, r). if j = i then (j, set_questions r cs) else (j, r)) df"

text \<open>
  The loop \<^verbatim>\<open>for i, row in filled_df.loc[rows_with_missing].iterrows()\<close>: the rows to
  visit are taken once, before the loop; each step writes one row of \<open>filled\<close>.
\<close>

fun fill_loop :: "(nat \<times> rat option) list \<Rightarrow> row frame \<Rightarrow> row frame \<Rightarrow> row frame" where
  "fill_loop means [] filled = filled"
| "fill_loop means ((i, r) # rest) filled =
     fill_loop means rest
       (loc_set_questions i (map (fillna (means_at means i)) (questions r)) filled)"

text \<open>
  \<^verbatim>\<open>fill_na_with_mean\<close>. The result has three parts: \<^verbatim>\<open>self.data\<close> after the call
  (the method coerces its answer columns in place), the new frame \<^verbatim>\<open>filled_df\<close>
  (a copy of it, then filled) and the array of labels \<^verbatim>\<open>rows\<close>.
\<close>

definition fill_na_with_mean ::
  "(string \<Rightarrow> rat option) \<Rightarrow> row frame option \<Rightarrow> error + (row frame \<times> row frame \<times> nat list)" where
  "fill_na_with_mean parse data =
     (case data of
        None \<Rightarrow> Inl ValueError_not_loaded
      | Some df \<Rightarrow>
          (let self_data = coerce_frame parse df;
               rows_with_missing = map (\<lambda>(i, r). list_ex isna (questions r)) self_data;
               means = map (\<lambda>(i, r). (i, mean (questions r))) self_data;
               filled_df = fill_loop means (boolean_mask self_data rows_with_missing) self_data;
               rows = map fst (boolean_mask self_data rows_with_missing)
           in Inr (self_data, filled_df, rows)))"

section \<open>Scores\<close>

text \<open>
  \<^verbatim>\<open>score.astype("uint8")\<close> on a float series. pandas refuses a series with a NaN
  (IntCastingNaNError, a ValueError) and, for an unsigned target, a series with a negative
  value (ValueError); otherwise the cast drops the fraction of each value. A value of
  256 or more does not fit: on the usual platforms the conversion goes through a 32-bit
  integer, of which the low eight bits are kept (\<open>word_of_int\<close>), and gives 0 from
  \<open>2 ^ 31\<close> up. The \<open>None\<close> case of the last line of \<open>astype_uint8\<close> cannot be
  reached.
\<close>

definition float_to_uint8 :: "rat \<Rightarrow> 8 word" where
  "float_to_uint8 x = (if x < 2 ^ 31 then word_of_int \<lfloor>x\<rfloor> else 0)"

definition astype_uint8 :: "rat option list \<Rightarrow> error + 8 word list" where
  "astype_uint8 ms =
     (if list_ex (\<lambda>m. m = None) ms then Inl IntCastingNaNError
      else if list_ex (\<lambda>m. case m of Some x \<Rightarrow> x < 0 | None \<Rightarrow> False) ms
        then Inl ValueError_lossless_cast
      else Inr (map (\<lambda>m. case m of Some x \<Rightarrow> float_to_uint8 x | None \<Rightarrow> 0) ms))"

text \<open>A row with the added column \<^verbatim>\<open>score\<close>, of dtype UInt8: a byte or NA.\<close>

record scored_row = row +
  score :: "8 word option"

definition add_score :: "row \<Rightarrow> 8 word option \<Rightarrow> scored_row" where
  "add_score r s = row.extend r (scored_row.fields s)"

text \<open>
  \<^verbatim>\<open>score_subjects\<close>. The frame it returns is \<^verbatim>\<open>self.data\<close> itself, with coerced
  answers and the new column. The cast comes before the NA mask, as in the source.
\<close>

definition score_subjects ::
  "(string \<Rightarrow> rat option) \<Rightarrow> int \<Rightarrow> row frame option \<Rightarrow> error + scored_row frame" where
  "score_subjects parse maximal_nans_per_sub data =
     (case data of
        None \<Rightarrow> Inl ValueError_not_loaded
      | Some df \<Rightarrow>
          (let self_data = coerce_frame parse df;
               score = map (\<lambda>(i, r). mean (questions r)) self_data;
               nan_counts = map (\<lambda>(i, r). int (nan_count (questions r))) self_data
           in case astype_uint8 score of
                Inl e \<Rightarrow> Inl e
              | Inr scores \<Rightarrow>
                  Inr (map (\<lambda>((i, r), s, n).
                             (i, add_score r (if n > maximal_nans_per_sub then None else Some s)))
                        (zip self_data (zip scores nan_counts)))))"

section \<open>Cleaning\<close>

definition column_to_datetime :: "(cell \<Rightarrow> int option) \<Rightarrow> stamp \<Rightarrow> stamp" where
  "column_to_datetime to_datetime st =
     (case st of
        Raw c \<Rightarrow> (case to_datetime c of Some t \<Rightarrow> Time t | None \<Rightarrow> NaT)
      | Time t \<Rightarrow> Time t
      | NaT \<Rightarrow> NaT)"

text \<open>
  The lambda on the email column:
  \<^verbatim>\<open>x if isinstance(x, str) and '@' in x and '.' in x.split('@')[-1] else np.nan\<close>.
\<close>

definition clean_email :: "cell \<Rightarrow> cell" where
  "clean_email x =
     (case x of
        Str s \<Rightarrow>
          (if CHR ''@'' \<in> set s \<and> CHR ''.'' \<in> set (last (split CHR ''@'' s))
           then Str s else NaN)
      | _ \<Rightarrow> NaN)"

definition valid_genders :: "cell list" where
  "valid_genders = [Str ''Male'', Str ''Female'', Str ''Other'', Str ''Fluid'']"

definition clean_gender :: "cell \<Rightarrow> cell" where
  "clean_gender x = (if x \<in> set valid_genders then x else NaN)"

text \<open>
  \<^verbatim>\<open>clean_data\<close>, step by step as in the source. \<^verbatim>\<open>pd.to_datetime\<close> (with
  \<^verbatim>\<open>errors='coerce'\<close>) and \<^verbatim>\<open>datetime.now()\<close> are parameters. A comparison with NaN
  or NaT is false.
\<close>

definition clean_data ::
  "(string \<Rightarrow> rat option) \<Rightarrow> (cell \<Rightarrow> int option) \<Rightarrow> int \<Rightarrow> row frame \<Rightarrow> row frame" where
  "clean_data parse to_datetime now data =
     (let df = map (\<lambda>(i, r). (i, r\<lparr>age := to_numeric parse (age r)\<rparr>)) data;
          df = filter (\<lambda>(i, r). (case age r of Num a \<Rightarrow> 0 \<le> a | _ \<Rightarrow> False) \<and> \<not> isna (age r)) df;
          df = map (\<lambda>(i, r). (i, r\<lparr>timestamp := column_to_datetime to_datetime (timestamp r)\<rparr>)) df;
          df = filter (\<lambda>(i, r). (case timestamp r of Time t \<Rightarrow> t \<le> now | _ \<Rightarrow> False)) df;
          df = map (\<lambda>(i, r). (i, r\<lparr>email := clean_email (email r)\<rparr>)) df;
          df = filter (\<lambda>(i, r). \<not> isna (email r)) df;
          df = map (\<lambda>(i, r). (i, r\<lparr>gender := clean_gender (gender r)\<rparr>)) df;
          df = filter (\<lambda>(i, r). \<not> isna (gender r)) df;
          df = coerce_frame parse df
      in df)"

text \<open>
  The tests of \<^verbatim>\<open>clean_data\<close> in the words of its contract: the age reads as a number
  that is not negative, the timestamp reads as a point in time not later than \<open>now\<close>,
  the email is a string with an \<^verbatim>\<open>@\<close> and a dot after its last \<^verbatim>\<open>@\<close>, the
  gender is one of the four. They read the age, timestamp, email and gender columns only.
  A row that passes them leaves as \<open>cleaned_row\<close>.
\<close>

definition after_last_at :: "string \<Rightarrow> string" where
  "after_last_at s = rev (takeWhile (\<lambda>x. x \<noteq> CHR ''@'') (rev s))"

definition survives ::
  "(string \<Rightarrow> rat option) \<Rightarrow> (cell \<Rightarrow> int option) \<Rightarrow> int \<Rightarrow> row \<Rightarrow> bool" where
  "survives parse to_datetime now r =
     ((case to_numeric parse (age r) of Num a \<Rightarrow> 0 \<le> a | _ \<Rightarrow> False) \<and>
      (case column_to_datetime to_datetime (timestamp r) of Time t \<Rightarrow> t \<le> now | _ \<Rightarrow> False) \<and>
      (case email r of
         Str s \<Rightarrow> CHR ''@'' \<in> set s \<and> CHR ''.'' \<in> set (after_last_at s)
       | _ \<Rightarrow> False) \<and>
      gender r \<in> set valid_genders)"

definition cleaned_row ::
  "(string \<Rightarrow> rat option) \<Rightarrow> (cell \<Rightarrow> int option) \<Rightarrow> row \<Rightarrow> row" where
  "cleaned_row parse to_datetime r =
     coerce_questions parse
       (r\<lparr>age := to_numeric parse (age r),
          timestamp := column_to_datetime to_datetime (timestamp r)\<rparr>)"

section \<open>Means by gender and age group\<close>

text \<open>
  The grouped table maps a key (gender, age above 40) to the five column means of its
  group; a key without a group maps to \<open>None\<close>. The order of the table's rows is not
  modelled. \<^verbatim>\<open>groupby\<close> leaves out the rows whose key has a missing part (its default
  \<^verbatim>\<open>dropna=True\<close>).
\<close>

type_synonym table = "cell \<times> bool \<Rightarrow> rat option list option"

definition group_rows :: "cell \<times> bool \<Rightarrow> ((cell \<times> bool) \<times> row) list \<Rightarrow> row list" where
  "group_rows k keyed = map snd (filter (\<lambda>(k', r). k' = k) keyed)"

definition groupby_mean :: "((cell \<times> bool) \<times> row) list \<Rightarrow> table" where
  "groupby_mean keyed k =
     (if isna (fst k) then None
      else (case group_rows k keyed of
              [] \<Rightarrow> None
            | g \<Rightarrow> Some (map (\<lambda>col. mean (map col g)) [q1, q2, q3, q4, q5])))"

definition above_40 :: "cell \<Rightarrow> bool" where
  "above_40 a = (case a of Num x \<Rightarrow> 40 < x | _ \<Rightarrow> False)"

text \<open>
  \<^verbatim>\<open>correlate_gender_age\<close>: returns \<^verbatim>\<open>self.data\<close> after the call (answers and age
  coerced in place) and the grouped table.
\<close>

definition correlate_gender_age ::
  "(string \<Rightarrow> rat option) \<Rightarrow> row frame option \<Rightarrow> error + (row frame \<times> table)" where
  "correlate_gender_age parse data =
     (case data of
        None \<Rightarrow> Inl ValueError_not_loaded
      | Some df \<Rightarrow>
          (let self_data = coerce_frame parse df;
               self_data = map (\<lambda>(i, r). (i, r\<lparr>age := to_numeric parse (age r)\<rparr>)) self_data;
               cleaned_data = filter (\<lambda>(i, r). \<not> isna (age r)) self_data;
               keyed = map (\<lambda>(i, r). ((gender r, above_40 (age r)), r)) cleaned_data
           in Inr (self_data, groupby_mean keyed)))"

text \<open>
  The members of the group with key \<open>(g, b)\<close>: the rows, with answers and age read as
  numbers, whose age is not missing, whose gender is \<open>g\<close> and whose age is above 40
  exactly when \<open>b\<close> holds.
\<close>

definition group_members :: "(string \<Rightarrow> rat option) \<Rightarrow> row frame \<Rightarrow> cell \<Rightarrow> bool \<Rightarrow> row list" where
  "group_members parse df g b =
     filter (\<lambda>r. \<not> isna (age r) \<and> gender r = g \<and> above_40 (age r) = b)
       (map (\<lambda>(i, r). (coerce_questions parse r)\<lparr>age := to_numeric parse (age r)\<rparr>) df)"

section \<open>Example data\<close>

text \<open>
  Concrete frames on which the theorems below are run. \<open>no_parse\<close> is a parser that
  reads no string as a number; the example frames hold no numeric strings.
\<close>

definition no_parse :: "string \<Rightarrow> rat option" where
  "no_parse s = None"

definition mail_row :: "cell \<Rightarrow> row" where
  "mail_row m =
     \<lparr>age = Num 30, timestamp = Raw (Str ''2020-01-01 10:00''), email = m,
      gender = Str ''Female'', q1 = Num 10, q2 = Num 20, q3 = Num 30, q4 = Num 40,
      q5 = Num 50\<rparr>"

definition mail_frame :: "row frame" where
  "mail_frame =
     [(0, mail_row (Str ''ann@example.org'')),
      (1, mail_row (Str ''.bob@example.org'')),
      (2, mail_row NaN),
      (3, mail_row (Str ''cy@@example.org'')),
      (4, mail_row (Str ''dee@.example.org'')),
      (5, mail_row (Str ''eve@example.org.'')),
      (6, mail_row (Str ''fay@example'')),
      (7, mail_row (Str ''gus@mail.example.org''))]"

text \<open>A frame whose second email is a number, as in the JSON \<^verbatim>\<open>"email": 7\<close>.\<close>

definition numeric_mail_frame :: "row frame" where
  "numeric_mail_frame =
     [(0, mail_row (Str ''ann@example.org'')),
      (1, mail_row (Num 7))]"

text \<open>A subject with the given five answers.\<close>

definition subject :: "cell \<Rightarrow> cell \<Rightarrow> cell \<Rightarrow> cell \<Rightarrow> cell \<Rightarrow> row" where
  "subject a b c d e =
     \<lparr>age = Num 30, timestamp = Raw (Str ''2020-01-01 10:00''),
      email = Str ''ann@example.org'', gender = Str ''Female'',
      q1 = a, q2 = b, q3 = c, q4 = d, q5 = e\<rparr>"

definition blank_frame :: "row frame" where
  "blank_frame = [(0, subject NaN NaN NaN NaN NaN)]"

definition full_and_blank_frame :: "row frame" where
  "full_and_blank_frame =
     [(0, subject (Num 10) (Num 20) (Num 30) (Num 40) (Num 50)),
      (1, subject NaN NaN NaN NaN NaN)]"

text \<open>The three subjects of the specification's scoring examples.\<close>

definition spec_frame :: "row frame" where
  "spec_frame =
     [(0, subject (Num 10) (Num 20) (Num 30) (Num 40) (Num 50)),
      (1, subject (Num 10) (Num 20) (Num 30) (Num 40) NaN),
      (2, subject (Num 10) NaN (Num 30) NaN (Num 50))]"

definition spec_scored :: "scored_row frame" where
  "spec_scored =
     [(0, add_score (subject (Num 10) (Num 20) (Num 30) (Num 40) (Num 50)) (Some 30)),
      (1, add_score (subject (Num 10) (Num 20) (Num 30) (Num 40) NaN) (Some 25)),
      (2, add_score (subject (Num 10) NaN (Num 30) NaN (Num 50)) None)]"

definition high_frame :: "row frame" where
  "high_frame = [(0, subject (Num 150) (Num 150) (Num 150) (Num 150) (Num 150))]"

text \<open>A subject whose mean, 26.25, is not a whole number.\<close>

definition fraction_frame :: "row frame" where
  "fraction_frame = [(0, subject (Num 10) (Num 20) (Num 35) (Num 40) NaN)]"

definition fraction_scored :: "scored_row frame" where
  "fraction_scored = [(0, add_score (subject (Num 10) (Num 20) (Num 35) (Num 40) NaN) (Some 26))]"

definition high_scored :: "scored_row frame" where
  "high_scored =
     [(0, add_score (subject (Num 150) (Num 150) (Num 150) (Num 150) (Num 150)) (Some 150))]"

definition spec_filled :: "row frame" where
  "spec_filled =
     [(0, subject (Num 10) (Num 20) (Num 30) (Num 40) (Num 50)),
      (1, subject (Num 10) (Num 20) (Num 30) (Num 40) (Num 25)),
      (2, subject (Num 10) (Num 30) (Num 30) (Num 30) (Num 50))]"

text \<open>
  A stand-in for \<^verbatim>\<open>pd.to_datetime\<close> on the example frames: a number is a point in
  time, anything else is not a date.
\<close>

definition epoch :: "cell \<Rightarrow> int option" where
  "epoch c = (case c of Num x \<Rightarrow> Some \<lfloor>x\<rfloor> | _ \<Rightarrow> None)"

definition raw_record :: "cell \<Rightarrow> cell \<Rightarrow> cell \<Rightarrow> cell \<Rightarrow> cell \<Rightarrow> row" where
  "raw_record a t e g q =
     \<lparr>age = a, timestamp = Raw t, email = e, gender = g,
      q1 = q, q2 = Num 20, q3 = Num 30, q4 = Num 40, q5 = Num 50\<rparr>"

definition clean_record :: "cell \<Rightarrow> int \<Rightarrow> cell \<Rightarrow> cell \<Rightarrow> cell \<Rightarrow> row" where
  "clean_record a t e g q =
     \<lparr>age = a, timestamp = Time t, email = e, gender = g,
      q1 = q, q2 = Num 20, q3 = Num 30, q4 = Num 40, q5 = Num 50\<rparr>"

definition two_at_frame :: "row frame" where
  "two_at_frame =
     [(0, raw_record (Num 30) (Num 5) (Str ''a@b@c.de'') (Str ''Male'') (Num 10))]"

definition two_at_cleaned :: "row frame" where
  "two_at_cleaned =
     [(0, clean_record (Num 30) 5 (Str ''a@b@c.de'') (Str ''Male'') (Num 10))]"

definition raw_frame :: "row frame" where
  "raw_frame =
     [(0, raw_record (Num 30) (Num 5) (Str ''ann@example.org'') (Str ''Female'') (Num 10)),
      (1, raw_record (Num (-1)) (Num 5) (Str ''bob@example.org'') (Str ''Male'') (Num 10)),
      (2, raw_record (Str ''old'') (Num 5) (Str ''cy@example.org'') (Str ''Male'') (Num 10)),
      (3, raw_record (Num 30) (Num 11) (Str ''dee@example.org'') (Str ''Female'') (Num 10)),
      (4, raw_record (Num 30) (Str ''soon'') (Str ''eve@example.org'') (Str ''Female'') (Num 10)),
      (5, raw_record (Num 30) (Num 5) (Str ''fay.example.org'') (Str ''Female'') (Num 10)),
      (6, raw_record (Num 30) (Num 5) (Str ''gus@example'') (Str ''Male'') (Num 10)),
      (7, raw_record (Num 30) (Num 5) (Num 7) (Str ''Male'') (Num 10)),
      (8, raw_record (Num 30) (Num 5) (Str ''hal@example.org'') (Str ''male'') (Num 10)),
      (9, raw_record (Num 30) (Num 5) (Str ''ida@example.org'') NaN (Num 10)),
      (10, raw_record (Num 0) (Num 10) (Str ''jo@example.org'') (Str ''Fluid'') (Str ''n/a''))]"

definition raw_cleaned :: "row frame" where
  "raw_cleaned =
     [(0, clean_record (Num 30) 5 (Str ''ann@example.org'') (Str ''Female'') (Num 10)),
      (10, clean_record (Num 0) 10 (Str ''jo@example.org'') (Str ''Fluid'') NaN)]"

text \<open>A person with the given gender, age and first two answers; no other answers.\<close>

definition person :: "cell \<Rightarrow> cell \<Rightarrow> cell \<Rightarrow> cell \<Rightarrow> row" where
  "person g a c1 c2 =
     \<lparr>age = a, timestamp = Raw (Str ''2020-01-01 10:00''), email = Str ''ann@example.org'',
      gender = g, q1 = c1, q2 = c2, q3 = NaN, q4 = NaN, q5 = NaN\<rparr>"

definition two_males_frame :: "row frame" where
  "two_males_frame =
     [(0, person (Str ''Male'') (Num 45) (Num 80) NaN),
      (1, person (Str ''Male'') (Num 20) (Num 60) NaN)]"

definition two_males_keyed :: "((cell \<times> bool) \<times> row) list" where
  "two_males_keyed =
     [((Str ''Male'', True), person (Str ''Male'') (Num 45) (Num 80) NaN),
      ((Str ''Male'', False), person (Str ''Male'') (Num 20) (Num 60) NaN)]"

definition nameless_frame :: "row frame" where
  "nameless_frame = [(0, person NaN (Num 30) (Num 50) NaN)]"

definition nameless_keyed :: "((cell \<times> bool) \<times> row) list" where
  "nameless_keyed = [((NaN, False), person NaN (Num 30) (Num 50) NaN)]"

definition groups_frame :: "row frame" where
  "groups_frame =
     [(0, person (Str ''Male'') (Num 45) (Num 80) NaN),
      (1, person (Str ''Male'') (Num 20) (Num 60) (Num 70)),
      (2, person (Str ''Male'') (Num 50) (Num 90) (Num 70)),
      (3, person (Str ''Female'') NaN (Num 10) (Num 10)),
      (4, person (Str ''Male'') (Num 41) NaN (Num 50))]"

section \<open>The email filter keeps exactly the valid addresses\<close>

lemma split_nonempty: "split c s \<noteq> []"
  by (induction s) (auto split: list.splits)

lemma length_split: "length (split c s) = Suc (count_list s c)"
  by (induction s) (auto split: list.splits simp: split_nonempty)

lemma split_no_sep: "count_list s c = 0 \<Longrightarrow> split c s = [s]"
  by (induction s) (auto split: if_splits)

lemma split_one_sep:
  "count_list s c = 1 \<Longrightarrow>
     split c s = [takeWhile (\<lambda>x. x \<noteq> c) s, drop 1 (dropWhile (\<lambda>x. x \<noteq> c) s)]"
  by (induction s) (auto split: if_splits simp: split_no_sep)

lemma startswith_take: "startswith s c = (take 1 s = [c])"
  by (cases s) (auto simp: startswith_def)

lemma endswith_take: "endswith s c = (take 1 (rev s) = [c])"
  by (cases "rev s") (auto simp: endswith_def)

text \<open>On a string, the source's test and the specification's rule agree.\<close>

lemma is_valid_email_Str: "is_valid_email (Str s) = Inr (spec_valid_email (Str s))"
proof (cases "count_list s CHR ''@'' = 1")
  case True
  then have parts:
    "split CHR ''@'' s = [takeWhile (\<lambda>x. x \<noteq> CHR ''@'') s, domain_after_at s]"
    by (simp add: split_one_sep domain_after_at_def)
  show ?thesis
    using True
    by (cases "domain_after_at s")
       (auto simp: is_valid_email_def parts startswith_take endswith_take)
next
  case False
  then have "length (split CHR ''@'' s) \<noteq> 2"
    by (simp add: length_split)
  with False show ?thesis
    by (simp add: is_valid_email_def)
qed

lemma is_valid_email_text: "is_text c \<Longrightarrow> is_valid_email c = Inr (spec_valid_email c)"
  by (cases c) (simp_all add: is_valid_email_Str is_text_def, simp add: is_valid_email_def)

lemma is_valid_email_Inr_text: "is_valid_email c = Inr b \<Longrightarrow> is_text c"
  by (cases c) (auto simp: is_valid_email_def is_text_def)

lemma spec_valid_text: "spec_valid_email c \<Longrightarrow> is_text c"
  by (cases c) (auto simp: is_text_def)

lemma series_apply_total:
  "list_all (\<lambda>x. f x = Inr (g x)) xs \<Longrightarrow> series_apply f xs = Inr (map g xs)"
  by (induction xs) auto

lemma series_apply_Inr:
  "series_apply f xs = Inr ys \<Longrightarrow> list_all (\<lambda>x. \<exists>b. f x = Inr b) xs"
  by (induction xs arbitrary: ys) (auto split: sum.splits)

lemma boolean_mask_map: "boolean_mask df (map p df) = filter p df"
  by (induction df) (auto simp: boolean_mask_def)

lemma reset_index_labels: "map fst (reset_index df) = [0 ..< length df]"
  by (simp add: reset_index_def)

lemma reset_index_rows: "map snd (reset_index df) = map snd df"
  by (simp add: reset_index_def)

lemma reset_index_idem: "reset_index (reset_index df) = reset_index df"
  by (simp add: reset_index_def)

lemma filter_reset_index:
  "list_all (\<lambda>(i, r). p r) df \<Longrightarrow> filter (\<lambda>(i, r). p r) (reset_index df) = reset_index df"
  by (fastforce simp: reset_index_def list_all_iff filter_id_conv dest: set_zip_rightD)

lemma list_all_reset_index:
  "list_all (\<lambda>(i, r). p r) df \<Longrightarrow> list_all (\<lambda>(i, r). p r) (reset_index df)"
  by (fastforce simp: reset_index_def list_all_iff dest: set_zip_rightD)

lemma remove_rows_text:
  assumes "list_all (\<lambda>(i, r). is_text (email r)) df"
  shows "remove_rows_without_mail (Some df) =
           Inr (reset_index (filter (\<lambda>(i, r). spec_valid_email (email r)) df))"
proof -
  have "list_all (\<lambda>c. is_valid_email c = Inr (spec_valid_email c)) (map (\<lambda>(i, r). email r) df)"
    using assms by (induction df) (auto simp: is_valid_email_text)
  then have A: "series_apply is_valid_email (map (\<lambda>(i, r). email r) df)
               = Inr (map spec_valid_email (map (\<lambda>(i, r). email r) df))"
    by (rule series_apply_total)
  have B: "map spec_valid_email (map (\<lambda>(i, r). email r) df)
             = map (\<lambda>(i, r). spec_valid_email (email r)) df"
    by (induction df) auto
  show ?thesis
    unfolding remove_rows_without_mail_def
    by (simp only: A B option.case sum.case boolean_mask_map)
qed

lemma remove_rows_returns_text:
  assumes "remove_rows_without_mail (Some df) = Inr out"
  shows "list_all (\<lambda>(i, r). is_text (email r)) df"
proof -
  from assms obtain flags where
    "series_apply is_valid_email (map (\<lambda>(i, r). email r) df) = Inr flags"
    by (auto simp: remove_rows_without_mail_def split: sum.splits)
  then have "list_all (\<lambda>x. \<exists>b. is_valid_email x = Inr b) (map (\<lambda>(i, r). email r) df)"
    by (rule series_apply_Inr)
  then show ?thesis
    by (induction df) (auto dest: is_valid_email_Inr_text)
qed

text \<open>
  On a frame whose email column holds strings and missing values only,
  \<^verbatim>\<open>remove_rows_without_mail\<close> returns; the rows of its result are exactly the rows
  whose email has one \<^verbatim>\<open>@\<close>, a dot in the domain after it, no dot at its start or end
  and no dot at the start of the domain, in their input order; and the labels of the
  result count from zero.
\<close>

lemma remove_rows_without_mail_survivors:
  assumes "list_all (\<lambda>(i, r). is_text (email r)) df"
  shows "\<exists>out. remove_rows_without_mail (Some df) = Inr out
           \<and> map snd out = filter (\<lambda>r. spec_valid_email (email r)) (map snd df)
           \<and> map fst out = [0 ..< length out]"
proof -
  let ?out = "reset_index (filter (\<lambda>(i, r). spec_valid_email (email r)) df)"
  have "remove_rows_without_mail (Some df) = Inr ?out"
    using assms by (rule remove_rows_text)
  moreover have "map snd ?out = filter (\<lambda>r. spec_valid_email (email r)) (map snd df)"
    by (simp add: reset_index_rows filter_map comp_def case_prod_unfold)
  moreover have "map fst ?out = [0 ..< length ?out]"
    by (simp add: reset_index_def)
  ultimately show ?thesis
    by blast
qed

lemma remove_rows_without_mail_survivors_example:
  "list_all (\<lambda>(i, r). is_text (email r)) mail_frame
   \<and> (\<exists>out. remove_rows_without_mail (Some mail_frame) = Inr out
         \<and> map snd out = [mail_row (Str ''ann@example.org''), mail_row (Str ''gus@mail.example.org'')]
         \<and> map fst out = [0, 1])"
proof -
  have strings: "list_all (\<lambda>(i, r). is_text (email r)) mail_frame"
    by (simp add: mail_frame_def mail_row_def is_text_def)
  have kept: "filter (\<lambda>r. spec_valid_email (email r)) (map snd mail_frame)
                = [mail_row (Str ''ann@example.org''), mail_row (Str ''gus@mail.example.org'')]"
    by (simp add: mail_frame_def mail_row_def domain_after_at_def)
  from remove_rows_without_mail_survivors [OF strings] obtain out where
    out: "remove_rows_without_mail (Some mail_frame) = Inr out"
      "map snd out = filter (\<lambda>r. spec_valid_email (email r)) (map snd mail_frame)"
      "map fst out = [0 ..< length out]"
    by blast
  from out(2) kept have rows: "map snd out = [mail_row (Str ''ann@example.org''), mail_row (Str ''gus@mail.example.org'')]"
    by simp
  then have "length out = 2"
    by (metis length_map length_Cons list.size(3) numeral_2_eq_2)
  with out(3) have "map fst out = [0, 1]"
    by (simp add: upt_rec)
  with strings out(1) rows show ?thesis
    by auto
qed

text \<open>
  Claim C6 says that a row survives \<^verbatim>\<open>remove_rows_without_mail\<close> if and only if its
  email has one \<^verbatim>\<open>@\<close>, a dot in the domain after it, no dot at its start or end and no
  dot at the start of the domain, and that the result holds exactly the surviving rows,
  numbered from zero in their order. The code does not do this when an email is a number:
  in this frame the first email is valid and the second is the number 7, which is not
  missing and has no \<^verbatim>\<open>split\<close>; the call ends with an AttributeError and no row
  survives.
\<close>

theorem remove_rows_without_mail_numeric_email_raises:
  "spec_valid_email (email (snd (numeric_mail_frame ! 0)))
   \<and> remove_rows_without_mail (Some numeric_mail_frame) = Inl AttributeError_split"
  by (simp add: numeric_mail_frame_def mail_row_def domain_after_at_def
      remove_rows_without_mail_def is_valid_email_def startswith_def endswith_def)

text \<open>
  Claim C7. Whenever \<^verbatim>\<open>remove_rows_without_mail\<close> returns a frame, running it on that
  frame returns the same frame, rows and labels: the filter is idempotent.
\<close>

theorem remove_rows_without_mail_idempotent:
  assumes "remove_rows_without_mail (Some df) = Inr out"
  shows "remove_rows_without_mail (Some out) = Inr out"
proof -
  let ?valid = "\<lambda>(i, r). spec_valid_email (email r)"
  have "list_all (\<lambda>(i, r). is_text (email r)) df"
    using assms by (rule remove_rows_returns_text)
  then have "remove_rows_without_mail (Some df) = Inr (reset_index (filter ?valid df))"
    by (rule remove_rows_text)
  with assms have out: "out = reset_index (filter ?valid df)"
    by simp
  have "list_all ?valid (filter ?valid df)"
    by (simp add: list_all_iff)
  then have valid_out: "list_all ?valid out"
    unfolding out by (rule list_all_reset_index)
  then have "list_all (\<lambda>(i, r). is_text (email r)) out"
    by (auto simp: list_all_iff dest: spec_valid_text)
  then have "remove_rows_without_mail (Some out) = Inr (reset_index (filter ?valid out))"
    by (rule remove_rows_text)
  moreover have "filter ?valid out = out"
    using valid_out by (auto simp: list_all_iff filter_id_conv)
  moreover have "reset_index out = out"
    unfolding out by (rule reset_index_idem)
  ultimately show ?thesis
    by simp
qed

theorem remove_rows_without_mail_idempotent_witness:
  "remove_rows_without_mail (Some mail_frame)
     = Inr [(0, mail_row (Str ''ann@example.org'')), (1, mail_row (Str ''gus@mail.example.org''))]
   \<and> remove_rows_without_mail
       (Some [(0, mail_row (Str ''ann@example.org'')), (1, mail_row (Str ''gus@mail.example.org''))])
     = Inr [(0, mail_row (Str ''ann@example.org'')), (1, mail_row (Str ''gus@mail.example.org''))]"
proof -
  have first: "remove_rows_without_mail (Some mail_frame)
     = Inr [(0, mail_row (Str ''ann@example.org'')), (1, mail_row (Str ''gus@mail.example.org''))]"
    by (simp add: remove_rows_without_mail_def mail_frame_def mail_row_def is_valid_email_def
        startswith_def endswith_def boolean_mask_def reset_index_def upt_rec)
  from remove_rows_without_mail_idempotent [OF first] first show ?thesis
    by simp
qed

section \<open>What a call of the scorer does\<close>

lemmas score_eval = score_subjects_def coerce_frame_def coerce_questions_def to_numeric_def
  questions_def mean_def nan_count_def isna_def astype_uint8_def float_to_uint8_def subject_def

lemma astype_uint8_Inr:
  assumes "astype_uint8 ms = Inr ws"
  shows "length ws = length ms"
    and "k < length ms \<Longrightarrow> \<exists>x. ms ! k = Some x \<and> 0 \<le> x \<and> ws ! k = float_to_uint8 x"
proof -
  from assms have no_nan: "\<not> list_ex (\<lambda>m. m = None) ms"
    and no_neg: "\<not> list_ex (\<lambda>m. case m of Some x \<Rightarrow> x < 0 | None \<Rightarrow> False) ms"
    and ws: "ws = map (\<lambda>m. case m of Some x \<Rightarrow> float_to_uint8 x | None \<Rightarrow> 0) ms"
    by (auto simp: astype_uint8_def split: if_splits)
  show "length ws = length ms"
    by (simp add: ws)
  assume k: "k < length ms"
  then have mem: "ms ! k \<in> set ms"
    by simp
  with no_nan obtain x where x: "ms ! k = Some x"
    by (cases "ms ! k") (auto simp: list_ex_iff)
  with mem no_neg have "0 \<le> x"
    by (force simp: list_ex_iff)
  with x k show "\<exists>x. ms ! k = Some x \<and> 0 \<le> x \<and> ws ! k = float_to_uint8 x"
    by (simp add: ws)
qed

lemma uint_byte: "uint (word_of_int n :: 8 word) = n mod 256"
  by (simp add: uint_word_of_int take_bit_eq_mod)

lemma uint_byte_range: "0 \<le> uint (w :: 8 word) \<and> uint w \<le> 255"
  using uint_lt2p [of w] by simp

text \<open>Below 256 the cast of a value that is not negative is its floor.\<close>

lemma float_to_uint8_floor:
  assumes "0 \<le> x" and "x < 256"
  shows "uint (float_to_uint8 x) = \<lfloor>x\<rfloor>"
proof -
  from assms(2) have "\<lfloor>x\<rfloor> < 256"
    by (simp add: floor_less_iff)
  moreover from assms(1) have "0 \<le> \<lfloor>x\<rfloor>"
    by simp
  moreover from assms(2) have "x < 2 ^ 31"
    by simp
  ultimately show ?thesis
    by (simp add: float_to_uint8_def uint_byte)
qed

lemma sum_list_bounds:
  "\<forall>x \<in> set xs. 0 \<le> x \<and> x \<le> (100::rat) \<Longrightarrow>
     0 \<le> sum_list xs \<and> sum_list xs \<le> 100 * of_nat (length xs)"
  by (induction xs) (auto simp: algebra_simps)

lemma set_present: "set (present cs) = {x. Num x \<in> set cs}"
  by (induction cs rule: present.induct) auto

lemma mean_bounds:
  assumes "mean cs = Some x" and "\<forall>c \<in> set cs. \<forall>y. c = Num y \<longrightarrow> 0 \<le> y \<and> y \<le> 100"
  shows "0 \<le> x \<and> x \<le> 100"
proof -
  let ?xs = "present cs"
  from assms(1) have ne: "?xs \<noteq> []" and x: "x = sum_list ?xs / of_nat (length ?xs)"
    by (auto simp: mean_def Let_def split: if_splits)
  from assms(2) have "\<forall>y \<in> set ?xs. 0 \<le> y \<and> y \<le> 100"
    by (simp add: set_present)
  then have b: "0 \<le> sum_list ?xs \<and> sum_list ?xs \<le> 100 * of_nat (length ?xs)"
    by (rule sum_list_bounds)
  from ne have pos: "(0::rat) < of_nat (length ?xs)"
    by simp
  from b pos show ?thesis
    unfolding x by (simp add: pos_divide_le_eq)
qed

text \<open>
  What a call that returns has done to row \<open>k\<close>: the label is kept, the mean exists and
  is not negative, and the score is NA or the cast of the mean.
\<close>

lemma score_subjects_Inr:
  assumes "score_subjects parse m (Some df) = Inr out"
  shows "length out = length df"
    and "k < length df \<Longrightarrow>
           fst (out ! k) = fst (df ! k)
           \<and> (\<exists>x. mean (questions (coerce_questions parse (snd (df ! k)))) = Some x \<and> 0 \<le> x
                \<and> score (snd (out ! k)) =
                    (if m < int (nan_count (questions (coerce_questions parse (snd (df ! k)))))
                     then None else Some (float_to_uint8 x)))"
proof -
  let ?data = "coerce_frame parse df"
  let ?score = "map (\<lambda>(i, r). mean (questions r)) ?data"
  let ?counts = "map (\<lambda>(i, r). int (nan_count (questions r))) ?data"
  from assms obtain scores where cast: "astype_uint8 ?score = Inr scores"
    and out: "out = map (\<lambda>((i, r), s, n). (i, add_score r (if n > m then None else Some s)))
                     (zip ?data (zip scores ?counts))"
    by (auto simp: score_subjects_def Let_def split: sum.splits)
  have len: "length scores = length df"
    using astype_uint8_Inr(1) [OF cast] by (simp add: coerce_frame_def)
  show "length out = length df"
    by (simp add: out len coerce_frame_def)
  assume k: "k < length df"
  then have k': "k < length ?score"
    by (simp add: coerce_frame_def)
  from astype_uint8_Inr(2) [OF cast k'] obtain x where
    x: "?score ! k = Some x" "0 \<le> x" "scores ! k = float_to_uint8 x"
    by blast
  have dk: "?data ! k = (fst (df ! k), coerce_questions parse (snd (df ! k)))"
    using k by (simp add: coerce_frame_def case_prod_unfold)
  from x(1) k have mean: "mean (questions (coerce_questions parse (snd (df ! k)))) = Some x"
    by (simp add: coerce_frame_def case_prod_unfold)
  have "out ! k = (fst (df ! k),
      add_score (coerce_questions parse (snd (df ! k)))
        (if m < int (nan_count (questions (coerce_questions parse (snd (df ! k)))))
         then None else Some (float_to_uint8 x)))"
    using k len x(3) by (simp add: out dk coerce_frame_def case_prod_unfold)
  then show "fst (out ! k) = fst (df ! k)
           \<and> (\<exists>x. mean (questions (coerce_questions parse (snd (df ! k)))) = Some x \<and> 0 \<le> x
                \<and> score (snd (out ! k)) =
                    (if m < int (nan_count (questions (coerce_questions parse (snd (df ! k)))))
                     then None else Some (float_to_uint8 x)))"
    using mean x(2) by (simp add: add_score_def row.defs scored_row.defs)
qed

text \<open>
  A frame with a subject whose five answers are all missing makes the call raise, whatever
  the threshold: the mean of that row is NaN and the cast to \<^verbatim>\<open>uint8\<close> comes first.
\<close>

lemma score_subjects_raises_on_blank_row:
  assumes "(i, r) \<in> set df" and "mean (questions (coerce_questions parse r)) = None"
  shows "score_subjects parse m (Some df) = Inl IntCastingNaNError"
proof -
  from assms have "None \<in> set (map (\<lambda>(i, r). mean (questions r)) (coerce_frame parse df))"
    by (force simp: coerce_frame_def)
  then have "astype_uint8 (map (\<lambda>(i, r). mean (questions r)) (coerce_frame parse df))
               = Inl IntCastingNaNError"
    by (simp add: astype_uint8_def list_ex_iff)
  then show ?thesis
    by (simp add: score_subjects_def)
qed

text \<open>
  Claim C1 says that \<^verbatim>\<open>score_subjects\<close> never raises because of missing answers and
  that a subject with all five answers missing receives the score NA. The code does not
  do this: on the frame of one subject with five missing answers and the default
  threshold 1, the call ends with the error of the integer cast and no score column.
\<close>

theorem score_subjects_blank_subject_raises:
  "score_subjects no_parse 1 (Some blank_frame) = Inl IntCastingNaNError"
  by (simp add: score_eval blank_frame_def)

text \<open>
  On the three subjects of the specification's examples alone, with threshold 1, the call
  returns the scores 30, 25 and NA.
\<close>

lemma score_subjects_spec_examples:
  "score_subjects no_parse 1 (Some spec_frame) = Inr spec_scored
   \<and> map (\<lambda>(i, r). score r) spec_scored = [Some 30, Some 25, None]"
  by (simp add: score_eval spec_frame_def spec_scored_def add_score_def row.defs scored_row.defs)

text \<open>
  Claim C2 says that every subject whose number of missing answers is at most
  \<^verbatim>\<open>maximal_nans_per_sub\<close> receives the floor of the mean of its present answers, so that
  with threshold 1 the answers 10, 20, 30, 40, 50 give the score 30, and that only a
  subject with more missing answers than the threshold is left without a score. The code
  does not do this: in this frame the first subject has the answers 10, 20, 30, 40, 50 and
  the second has no answer at all; the call ends with the error of the integer cast, and
  the first subject receives no score.
\<close>

theorem score_subjects_full_subject_unscored:
  "score_subjects no_parse 1 (Some full_and_blank_frame) = Inl IntCastingNaNError"
  by (simp add: score_eval full_and_blank_frame_def)

text \<open>
  Claim C9, as stated, fails for answers outside the range 0 to 100: five answers of 150
  give the score 150. The cast to \<^verbatim>\<open>uint8\<close> does not clamp.
\<close>

theorem score_subjects_not_clamped:
  "score_subjects no_parse 1 (Some high_frame) = Inr high_scored
   \<and> score (snd (high_scored ! 0)) = Some 150
   \<and> (100 :: int) < uint (150 :: 8 word)"
  by (simp add: score_eval high_frame_def high_scored_def add_score_def row.defs scored_row.defs)

text \<open>
  Claim C9, amended. Every score that \<^verbatim>\<open>score_subjects\<close> assigns is an unsigned byte,
  between 0 and 255; the cast that makes it drops the fraction of the mean and clamps
  nothing to 100. When the subject's present answers all lie between 0 and 100, the score
  lies between 0 and 100; when they are moreover whole numbers, as the answers of the
  questionnaire are, the score is the floor of their mean.
\<close>

theorem score_subjects_byte_range:
  assumes "score_subjects parse m (Some df) = Inr out"
    and "k < length df"
    and "score (snd (out ! k)) = Some w"
  shows "0 \<le> uint w \<and> uint w \<le> 255
         \<and> ((\<forall>c \<in> set (questions (coerce_questions parse (snd (df ! k)))).
                \<forall>y. c = Num y \<longrightarrow> 0 \<le> y \<and> y \<le> 100)
              \<longrightarrow> uint w \<le> 100)
         \<and> ((\<forall>c \<in> set (questions (coerce_questions parse (snd (df ! k)))).
                \<forall>y. c = Num y \<longrightarrow> y \<in> \<int> \<and> 0 \<le> y \<and> y \<le> 100)
              \<longrightarrow> (\<exists>x. mean (questions (coerce_questions parse (snd (df ! k)))) = Some x
                       \<and> uint w = \<lfloor>x\<rfloor>))"
proof -
  let ?qs = "questions (coerce_questions parse (snd (df ! k)))"
  from score_subjects_Inr(2) [OF assms(1,2)] obtain x where
    x: "mean ?qs = Some x" "0 \<le> x"
    and sc: "score (snd (out ! k)) = (if m < int (nan_count ?qs) then None else Some (float_to_uint8 x))"
    by blast
  from sc assms(3) have w: "w = float_to_uint8 x"
    by (simp split: if_splits)
  have inside: "uint w = \<lfloor>x\<rfloor> \<and> uint w \<le> 100"
    if "\<forall>c \<in> set ?qs. \<forall>y. c = Num y \<longrightarrow> 0 \<le> y \<and> y \<le> 100"
  proof -
    from mean_bounds [OF x(1) that] have b: "0 \<le> x \<and> x \<le> 100" .
    then have "x < 256"
      by simp
    with b have "uint w = \<lfloor>x\<rfloor>"
      unfolding w by (simp add: float_to_uint8_floor)
    moreover from b have "\<lfloor>x\<rfloor> \<le> 100"
      by (simp add: floor_le_iff)
    ultimately show ?thesis
      by simp
  qed
  have whole: "\<exists>x. mean ?qs = Some x \<and> uint w = \<lfloor>x\<rfloor>"
    if "\<forall>c \<in> set ?qs. \<forall>y. c = Num y \<longrightarrow> y \<in> \<int> \<and> 0 \<le> y \<and> y \<le> 100"
  proof -
    from that have "\<forall>c \<in> set ?qs. \<forall>y. c = Num y \<longrightarrow> 0 \<le> y \<and> y \<le> 100"
      by blast
    from inside [OF this] x(1) show ?thesis
      by blast
  qed
  from uint_byte_range [of w] inside whole show ?thesis
    by blast
qed

theorem score_subjects_byte_range_witness:
  "score_subjects no_parse 1 (Some fraction_frame) = Inr fraction_scored
   \<and> (0 :: nat) < length fraction_frame
   \<and> score (snd (fraction_scored ! 0)) = Some 26
   \<and> mean (questions (coerce_questions no_parse (snd (fraction_frame ! 0)))) = Some (105 / 4)
   \<and> uint (26 :: 8 word) \<le> 100
   \<and> (\<exists>x. mean (questions (coerce_questions no_parse (snd (fraction_frame ! 0)))) = Some x
          \<and> uint (26 :: 8 word) = \<lfloor>x\<rfloor>)"
proof -
  let ?qs = "questions (coerce_questions no_parse (snd (fraction_frame ! 0)))"
  have fl: "\<lfloor>105 / 4 :: rat\<rfloor> = 26"
    by code_simp
  have ret: "score_subjects no_parse 1 (Some fraction_frame) = Inr fraction_scored"
    by (simp add: score_eval fraction_frame_def fraction_scored_def fl)
  have k: "(0 :: nat) < length fraction_frame"
    by (simp add: fraction_frame_def)
  have sc: "score (snd (fraction_scored ! 0)) = Some 26"
    by (simp add: fraction_scored_def add_score_def row.defs scored_row.defs)
  have whole: "\<forall>c \<in> set ?qs. \<forall>y. c = Num y \<longrightarrow> y \<in> \<int> \<and> 0 \<le> y \<and> y \<le> 100"
    by (simp add: score_eval fraction_frame_def)
  then have inside: "\<forall>c \<in> set ?qs. \<forall>y. c = Num y \<longrightarrow> 0 \<le> y \<and> y \<le> 100"
    by blast
  have mean: "mean ?qs = Some (105 / 4)"
    by (simp add: score_eval fraction_frame_def)
  from score_subjects_byte_range [OF ret k sc] inside whole
  have "uint (26 :: 8 word) \<le> 100" and "\<exists>x. mean ?qs = Some x \<and> uint (26 :: 8 word) = \<lfloor>x\<rfloor>"
    by blast+
  with ret k sc mean show ?thesis
    by blast
qed

section \<open>What the imputer fills and what it lists\<close>

lemma fill_loop_map:
  "distinct (map fst todo) \<Longrightarrow>
   fill_loop means todo filled =
     map (\<lambda>(j, r). case map_of todo j of
                      Some r0 \<Rightarrow> (j, set_questions r (map (fillna (means_at means j)) (questions r0)))
                    | None \<Rightarrow> (j, r)) filled"
proof (induction todo arbitrary: filled)
  case Nil
  then show ?case by simp
next
  case (Cons a todo)
  obtain i r0 where a: "a = (i, r0)"
    by (cases a)
  from Cons.prems a have fresh: "map_of todo i = None" and dist: "distinct (map fst todo)"
    by (auto simp: map_of_eq_None_iff)
  show ?case
    unfolding a fill_loop.simps Cons.IH [OF dist] loc_set_questions_def map_map
    by (rule map_cong) (auto simp: fresh split: option.splits)
qed

lemma map_of_filter_distinct:
  assumes "distinct (map fst df)" and "(j, r) \<in> set df"
  shows "map_of (filter p df) j = (if p (j, r) then Some r else None)"
proof (cases "p (j, r)")
  case True
  from assms(1) have "distinct (map fst (filter p df))"
    by (rule distinct_map_filter)
  moreover from True assms(2) have "(j, r) \<in> set (filter p df)"
    by simp
  ultimately have "map_of (filter p df) j = Some r"
    by (rule map_of_is_SomeI)
  with True show ?thesis by simp
next
  case False
  have "j \<notin> fst ` set (filter p df)"
  proof
    assume "j \<in> fst ` set (filter p df)"
    then obtain r' where r': "(j, r') \<in> set df" "p (j, r')"
      by auto
    from assms r'(1) have "r' = r"
      by (meson eq_key_imp_eq_value)
    with r'(2) False show False by simp
  qed
  then have "map_of (filter p df) j = None"
    by (simp add: map_of_eq_None_iff)
  with False show ?thesis by simp
qed

lemma means_at_label:
  assumes "distinct (map fst df)" and "(j, r) \<in> set df"
  shows "means_at (map (\<lambda>(i, r). (i, f r)) df) j = f r"
proof -
  from assms have "map_of df j = Some r"
    by (rule map_of_is_SomeI)
  then show ?thesis
    by (simp add: means_at_def map_of_map)
qed

lemma labels_coerce_frame: "map fst (coerce_frame parse df) = map fst df"
  by (simp add: coerce_frame_def case_prod_unfold comp_def)

lemma fill_loop_frame:
  assumes "distinct (map fst df)"
  shows "fill_loop (map (\<lambda>(i, r). (i, mean (questions r))) df) (filter p df) df =
           map (\<lambda>(i, r). if p (i, r)
                           then (i, set_questions r (map (fillna (mean (questions r))) (questions r)))
                           else (i, r)) df"
proof -
  from assms have "distinct (map fst (filter p df))"
    by (rule distinct_map_filter)
  then have "fill_loop (map (\<lambda>(i, r). (i, mean (questions r))) df) (filter p df) df =
     map (\<lambda>(j, r). case map_of (filter p df) j of
                      Some r0 \<Rightarrow> (j, set_questions r
                          (map (fillna (means_at (map (\<lambda>(i, r). (i, mean (questions r))) df) j)) (questions r0)))
                    | None \<Rightarrow> (j, r)) df"
    by (rule fill_loop_map)
  also have "\<dots> = map (\<lambda>(i, r). if p (i, r)
                           then (i, set_questions r (map (fillna (mean (questions r))) (questions r)))
                           else (i, r)) df"
    by (rule map_cong)
       (auto simp: map_of_filter_distinct [OF assms] means_at_label [OF assms])
  finally show ?thesis .
qed

lemma set_questions_fillna_full:
  "\<not> list_ex isna (questions r) \<Longrightarrow> set_questions r (map (fillna m) (questions r)) = r"
  by (simp add: questions_def set_questions_def fillna_def isna_def split: cell.splits)

text \<open>The frame that the method returns, row by row, when labels are pairwise different.\<close>

lemma fill_na_with_mean_distinct:
  assumes "distinct (map fst df)"
  shows "fill_na_with_mean parse (Some df) =
     Inr (coerce_frame parse df,
          map (\<lambda>(i, r). (i, set_questions r (map (fillna (mean (questions r))) (questions r))))
              (coerce_frame parse df),
          map fst (filter (\<lambda>(i, r). list_ex isna (questions r)) (coerce_frame parse df)))"
proof -
  let ?data = "coerce_frame parse df"
  let ?p = "\<lambda>(i, r). list_ex isna (questions r)"
  have d: "distinct (map fst ?data)"
    using assms by (simp add: labels_coerce_frame)
  have "fill_loop (map (\<lambda>(i, r). (i, mean (questions r))) ?data) (filter ?p ?data) ?data =
          map (\<lambda>(i, r). if ?p (i, r)
                           then (i, set_questions r (map (fillna (mean (questions r))) (questions r)))
                           else (i, r)) ?data"
    using d by (rule fill_loop_frame)
  also have "\<dots> = map (\<lambda>(i, r). (i, set_questions r (map (fillna (mean (questions r))) (questions r)))) ?data"
    by (rule map_cong) (auto simp: set_questions_fillna_full)
  finally show ?thesis
    by (simp add: fill_na_with_mean_def Let_def boolean_mask_map)
qed

lemma questions_set_questions:
  "length cs = 5 \<Longrightarrow> questions (set_questions r cs) = cs"
  by (auto simp: questions_def set_questions_def length_Suc_conv eval_nat_numeral)

lemma set_questions_other_columns:
  "age (set_questions r cs) = age r \<and> timestamp (set_questions r cs) = timestamp r
   \<and> email (set_questions r cs) = email r \<and> gender (set_questions r cs) = gender r"
  by (simp add: set_questions_def split: list.splits)

lemma to_numeric_cases: "(\<exists>x. to_numeric parse c = Num x) \<or> to_numeric parse c = NaN"
  by (simp add: to_numeric_def split: cell.splits option.splits)

lemma coerced_numeric:
  "c \<in> set (questions (coerce_questions parse r)) \<Longrightarrow> (\<exists>x. c = Num x) \<or> c = NaN"
  using to_numeric_cases by (auto simp: questions_def coerce_questions_def)

lemma present_count:
  "\<forall>c \<in> set cs. (\<exists>x. c = Num x) \<or> c = NaN \<Longrightarrow> length (present cs) + nan_count cs = length cs"
  by (induction cs rule: present.induct) (auto simp: nan_count_def isna_def)

lemma length_questions: "length (questions r) = 5"
  by (simp add: questions_def)

lemma nan_count_zero: "nan_count cs = 0 \<longleftrightarrow> \<not> list_ex isna cs"
  by (auto simp: nan_count_def list_ex_iff filter_empty_conv)

lemma isna_NaN: "isna c \<longleftrightarrow> c = NaN"
  by (simp add: isna_def split: cell.splits)

text \<open>
  Claim C5. For a frame with pairwise different labels \<^verbatim>\<open>fill_na_with_mean\<close> returns,
  and row \<open>k\<close> of the filled frame compares with row \<open>k\<close> of the frame (its answers
  read as numbers) as follows: same label, same age, timestamp, email and gender; with no
  missing answer the row is unchanged; every present answer keeps its value; and with
  between one and four missing answers every missing answer is replaced with the sum of
  the row's present answers divided by their number, five minus the number missing.
\<close>

theorem fill_na_with_mean_rows:
  assumes "distinct (map fst df)" and "k < length df"
  shows "\<exists>self_data filled rows.
           fill_na_with_mean parse (Some df) = Inr (self_data, filled, rows)
           \<and> length filled = length df \<and> fst (filled ! k) = fst (df ! k)
           \<and> (let r = coerce_questions parse (snd (df ! k)); r' = snd (filled ! k);
                   qs = questions r; qs' = questions r' in
                age r' = age r \<and> timestamp r' = timestamp r
                \<and> email r' = email r \<and> gender r' = gender r
                \<and> (nan_count qs = 0 \<longrightarrow> r' = r)
                \<and> (\<forall>j < 5. \<forall>v. qs ! j = Num v \<longrightarrow> qs' ! j = Num v)
                \<and> (0 < nan_count qs \<and> nan_count qs < 5 \<longrightarrow>
                     length (present qs) = 5 - nan_count qs
                     \<and> (\<forall>j < 5. isna (qs ! j) \<longrightarrow>
                           qs' ! j = Num (sum_list (present qs) / of_nat (5 - nan_count qs)))))"
proof -
  let ?r = "coerce_questions parse (snd (df ! k))"
  let ?qs = "questions ?r"
  let ?r' = "set_questions ?r (map (fillna (mean ?qs)) ?qs)"
  let ?filled = "map (\<lambda>(i, r). (i, set_questions r (map (fillna (mean (questions r))) (questions r))))
                   (coerce_frame parse df)"
  have ret: "fill_na_with_mean parse (Some df) =
     Inr (coerce_frame parse df, ?filled,
          map fst (filter (\<lambda>(i, r). list_ex isna (questions r)) (coerce_frame parse df)))"
    using assms(1) by (rule fill_na_with_mean_distinct)
  have len: "length ?filled = length df"
    by (simp add: coerce_frame_def)
  have row: "?filled ! k = (fst (df ! k), ?r')"
    using assms(2) by (simp add: coerce_frame_def case_prod_unfold)
  have qs': "questions ?r' = map (fillna (mean ?qs)) ?qs"
    by (simp add: questions_set_questions length_questions)
  have other: "age ?r' = age ?r \<and> timestamp ?r' = timestamp ?r
               \<and> email ?r' = email ?r \<and> gender ?r' = gender ?r"
    by (rule set_questions_other_columns)
  have full: "nan_count ?qs = 0 \<longrightarrow> ?r' = ?r"
    by (simp add: nan_count_zero set_questions_fillna_full)
  have kept: "\<forall>j < 5. \<forall>v. ?qs ! j = Num v \<longrightarrow> questions ?r' ! j = Num v"
    by (simp add: qs' length_questions fillna_def)
  have count: "length (present ?qs) + nan_count ?qs = 5"
    using present_count [of ?qs] coerced_numeric [of _ parse "snd (df ! k)"]
    by (simp add: length_questions)
  have some: "0 < nan_count ?qs \<and> nan_count ?qs < 5 \<longrightarrow>
                length (present ?qs) = 5 - nan_count ?qs
                \<and> (\<forall>j < 5. isna (?qs ! j) \<longrightarrow>
                      questions ?r' ! j = Num (sum_list (present ?qs) / of_nat (5 - nan_count ?qs)))"
  proof (intro impI conjI allI)
    assume a: "0 < nan_count ?qs \<and> nan_count ?qs < 5"
    with count show n: "length (present ?qs) = 5 - nan_count ?qs"
      by simp
    with a have "present ?qs \<noteq> []"
      by auto
    with n have m: "mean ?qs = Some (sum_list (present ?qs) / of_nat (5 - nan_count ?qs))"
      by (simp add: mean_def Let_def)
    fix j :: nat
    assume j: "j < 5" and na: "isna (?qs ! j)"
    from j have "questions ?r' ! j = fillna (mean ?qs) (?qs ! j)"
      by (simp add: qs' length_questions)
    also from na have "\<dots> = Num (sum_list (present ?qs) / of_nat (5 - nan_count ?qs))"
      by (simp add: m isna_NaN fillna_def)
    finally show "questions ?r' ! j = Num (sum_list (present ?qs) / of_nat (5 - nan_count ?qs))" .
  qed
  from ret len row other full kept some show ?thesis
    by (simp add: Let_def)
qed

lemmas fill_eval = fill_na_with_mean_def coerce_frame_def coerce_questions_def to_numeric_def
  questions_def mean_def isna_def boolean_mask_def means_at_def loc_set_questions_def
  set_questions_def fillna_def subject_def Let_def

theorem fill_na_with_mean_rows_witness:
  "distinct (map fst spec_frame) \<and> (1 :: nat) < length spec_frame
   \<and> fill_na_with_mean no_parse (Some spec_frame) = Inr (spec_frame, spec_filled, [1, 2])
   \<and> length (present (questions (coerce_questions no_parse (snd (spec_frame ! 1))))) = 4
   \<and> questions (snd (spec_filled ! 1)) ! 4 = Num 25"
proof -
  let ?qs = "questions (coerce_questions no_parse (snd (spec_frame ! 1)))"
  have d: "distinct (map fst spec_frame)"
    by (simp add: spec_frame_def)
  have k: "(1 :: nat) < length spec_frame"
    by (simp add: spec_frame_def)
  have ret: "fill_na_with_mean no_parse (Some spec_frame) = Inr (spec_frame, spec_filled, [1, 2])"
    by (simp add: fill_eval spec_frame_def spec_filled_def)
  have n: "nan_count ?qs = 1"
    by (simp add: spec_frame_def subject_def questions_def coerce_questions_def to_numeric_def
        nan_count_def isna_def)
  have na: "isna (?qs ! 4)"
    by (simp add: spec_frame_def subject_def questions_def coerce_questions_def to_numeric_def
        isna_def)
  have s: "sum_list (present ?qs) = 100"
    by (simp add: spec_frame_def subject_def questions_def coerce_questions_def to_numeric_def)
  from fill_na_with_mean_rows [OF d k, of no_parse] ret
  have "0 < nan_count ?qs \<and> nan_count ?qs < 5 \<longrightarrow>
          length (present ?qs) = 5 - nan_count ?qs
          \<and> (\<forall>j < 5. isna (?qs ! j) \<longrightarrow>
                questions (snd (spec_filled ! 1)) ! j
                  = Num (sum_list (present ?qs) / of_nat (5 - nan_count ?qs)))"
    by (simp add: Let_def)
  with n na have "length (present ?qs) = 5 - nan_count ?qs"
    and "questions (snd (spec_filled ! 1)) ! 4 = Num (sum_list (present ?qs) / of_nat (5 - nan_count ?qs))"
    by simp_all
  with n s have "length (present ?qs) = 4" and "questions (snd (spec_filled ! 1)) ! 4 = Num 25"
    by simp_all
  with d k ret show ?thesis
    by blast
qed

text \<open>
  Claim C4 says that the index array of \<^verbatim>\<open>fill_na_with_mean\<close> holds exactly the
  labels of the rows that received at least one imputed value, so that neither a row
  without a missing answer nor a row whose five answers are all missing is listed. The
  code does not do this: the second subject of this frame has no answer at all, the filled
  frame equals the frame (no value was filled in), yet its label 1 is returned.
\<close>

theorem fill_na_with_mean_lists_blank_subject:
  "fill_na_with_mean no_parse (Some full_and_blank_frame)
     = Inr (full_and_blank_frame, full_and_blank_frame, [1])"
  by (simp add: fill_eval full_and_blank_frame_def)

lemma nan_count_pos: "0 < nan_count cs \<longleftrightarrow> list_ex isna cs"
  using nan_count_zero [of cs] by auto

text \<open>
  What the code returns as its index array, on every frame: the labels, in the order of
  the frame, of the rows with at least one missing answer (after the answers are read as
  numbers), whether or not a value could be filled in.
\<close>

lemma fill_na_with_mean_index:
  "\<exists>self_data filled.
     fill_na_with_mean parse (Some df) =
       Inr (self_data, filled,
            map fst (filter (\<lambda>(i, r). 0 < nan_count (questions (coerce_questions parse r))) df))"
proof -
  have "map fst (filter (\<lambda>(i, r). list_ex isna (questions r)) (coerce_frame parse df))
          = map fst (filter (\<lambda>(i, r). 0 < nan_count (questions (coerce_questions parse r))) df)"
    by (induction df) (auto simp: coerce_frame_def nan_count_pos)
  then show ?thesis
    by (simp add: fill_na_with_mean_def Let_def boolean_mask_map)
qed

text \<open>
  Claim C10. The only effect of \<^verbatim>\<open>fill_na_with_mean\<close> on the shared frame is the numeric
  reading of the five answer columns: the frame keeps its rows, labels and other columns,
  every answer becomes \<^verbatim>\<open>to_numeric\<close> of what it was, and an answer that was missing
  is still missing. The means are written to the returned copy only.
\<close>

theorem fill_na_with_mean_shared_frame:
  "\<exists>self_data filled rows.
     fill_na_with_mean parse (Some df) = Inr (self_data, filled, rows)
     \<and> self_data = coerce_frame parse df
     \<and> length self_data = length df
     \<and> (\<forall>k < length df.
          fst (self_data ! k) = fst (df ! k)
          \<and> age (snd (self_data ! k)) = age (snd (df ! k))
          \<and> timestamp (snd (self_data ! k)) = timestamp (snd (df ! k))
          \<and> email (snd (self_data ! k)) = email (snd (df ! k))
          \<and> gender (snd (self_data ! k)) = gender (snd (df ! k))
          \<and> questions (snd (self_data ! k)) = map (to_numeric parse) (questions (snd (df ! k)))
          \<and> (\<forall>j < 5. isna (questions (snd (df ! k)) ! j)
                       \<longrightarrow> isna (questions (snd (self_data ! k)) ! j)))"
proof -
  have rows: "\<forall>k < length df.
          fst (coerce_frame parse df ! k) = fst (df ! k)
          \<and> age (snd (coerce_frame parse df ! k)) = age (snd (df ! k))
          \<and> timestamp (snd (coerce_frame parse df ! k)) = timestamp (snd (df ! k))
          \<and> email (snd (coerce_frame parse df ! k)) = email (snd (df ! k))
          \<and> gender (snd (coerce_frame parse df ! k)) = gender (snd (df ! k))
          \<and> questions (snd (coerce_frame parse df ! k))
                = map (to_numeric parse) (questions (snd (df ! k)))"
    by (simp add: coerce_frame_def case_prod_unfold coerce_questions_def questions_def)
  have still: "\<forall>k < length df. \<forall>j < 5. isna (questions (snd (df ! k)) ! j)
                       \<longrightarrow> isna (questions (snd (coerce_frame parse df ! k)) ! j)"
  proof (intro allI impI)
    fix k j :: nat
    assume k: "k < length df" and j: "j < 5" and na: "isna (questions (snd (df ! k)) ! j)"
    from rows k have "questions (snd (coerce_frame parse df ! k)) ! j
                        = map (to_numeric parse) (questions (snd (df ! k))) ! j"
      by simp
    also from j have "\<dots> = to_numeric parse (questions (snd (df ! k)) ! j)"
      by (simp add: length_questions)
    also from na have "\<dots> = NaN"
      by (simp add: isna_NaN to_numeric_def)
    finally show "isna (questions (snd (coerce_frame parse df ! k)) ! j)"
      by (simp add: isna_NaN)
  qed
  have "\<exists>filled rows. fill_na_with_mean parse (Some df) = Inr (coerce_frame parse df, filled, rows)"
    by (simp add: fill_na_with_mean_def Let_def)
  moreover have "length (coerce_frame parse df) = length df"
    by (simp add: coerce_frame_def)
  ultimately show ?thesis
    using rows still by auto
qed

theorem fill_na_with_mean_shared_frame_witness:
  "fill_na_with_mean no_parse (Some spec_frame) = Inr (spec_frame, spec_filled, [1, 2])
   \<and> isna (questions (snd (spec_frame ! 1)) ! 4)
   \<and> questions (snd (spec_filled ! 1)) ! 4 = Num 25"
proof -
  have ret: "fill_na_with_mean no_parse (Some spec_frame) = Inr (spec_frame, spec_filled, [1, 2])"
    by (simp add: fill_eval spec_frame_def spec_filled_def)
  have k: "(1 :: nat) < length spec_frame"
    by (simp add: spec_frame_def)
  have before: "isna (questions (snd (spec_frame ! 1)) ! 4)"
    by (simp add: spec_frame_def subject_def questions_def isna_def)
  have copy: "questions (snd (spec_filled ! 1)) ! 4 = Num 25"
    by (simp add: spec_filled_def subject_def questions_def)
  from fill_na_with_mean_shared_frame [of no_parse spec_frame] ret
  have "\<forall>k < length spec_frame. \<forall>j < 5. isna (questions (snd (spec_frame ! k)) ! j)
                       \<longrightarrow> isna (questions (snd (spec_frame ! k)) ! j)"
    by auto
  with k before have "isna (questions (snd (spec_frame ! 1)) ! 4)"
    by simp
  with ret copy show ?thesis
    by simp
qed

section \<open>What the cleaner keeps\<close>

text \<open>
  The last part of \<^verbatim>\<open>s.split(c)\<close> is what follows the last \<open>c\<close> of \<open>s\<close>.
\<close>

lemma last_split_Cons:
  "last (split c (x # xs)) = (if c \<in> set xs \<or> x = c then last (split c xs) else x # xs)"
proof (cases "c \<in> set xs")
  case True
  then have "count_list xs c \<noteq> 0"
    by (simp add: count_list_0_iff)
  then have "length (split c xs) \<ge> 2"
    by (simp add: length_split)
  then obtain p q ps where "split c xs = p # q # ps"
    by (cases "split c xs" rule: list.exhaust; cases "tl (split c xs)") auto
  with True show ?thesis
    by simp
next
  case False
  then have "split c xs = [xs]"
    by (simp add: split_no_sep count_list_0_iff)
  with False show ?thesis
    by simp
qed

lemma last_split_suffix:
  "c \<notin> set (last (split c s)) \<and> (c \<in> set s \<longrightarrow> (\<exists>p. s = p @ c # last (split c s)))"
proof (induction s)
  case Nil
  show ?case by simp
next
  case (Cons x xs)
  show ?case
  proof (cases "c \<in> set xs")
    case True
    with Cons obtain p where "xs = p @ c # last (split c xs)"
      by blast
    then have "x # xs = (x # p) @ c # last (split c xs)"
      by simp
    then have "\<exists>p. x # xs = p @ c # last (split c xs)"
      by (rule exI)
    with True Cons show ?thesis
      unfolding last_split_Cons by simp
  next
    case False
    then have "split c xs = [xs]"
      by (simp add: split_no_sep count_list_0_iff)
    with False show ?thesis
      unfolding last_split_Cons by auto
  qed
qed

lemma takeWhile_stop: "c \<notin> set xs \<Longrightarrow> takeWhile (\<lambda>x. x \<noteq> c) (xs @ c # ys) = xs"
  by (induction xs) auto

lemma last_split_eq: "last (split c s) = rev (takeWhile (\<lambda>x. x \<noteq> c) (rev s))"
proof (cases "c \<in> set s")
  case True
  let ?d = "last (split c s)"
  from last_split_suffix [of c s] True obtain p where s: "s = p @ c # ?d" and d: "c \<notin> set ?d"
    by blast
  have "takeWhile (\<lambda>x. x \<noteq> c) (rev ?d @ c # rev p) = rev ?d"
    using d by (simp add: takeWhile_stop)
  moreover from s have "rev s = rev ?d @ c # rev p"
    by (metis rev.simps(2) rev_append append.assoc append_Cons append_Nil)
  ultimately show ?thesis
    by simp
next
  case False
  then have a: "split c s = [s]"
    by (simp add: split_no_sep count_list_0_iff)
  from False have b: "takeWhile (\<lambda>x. x \<noteq> c) (rev s) = rev s"
    by (auto simp: takeWhile_eq_all_conv)
  show ?thesis
    unfolding a b by simp
qed

lemma clean_email_NaN_iff:
  "clean_email c = NaN \<longleftrightarrow>
     \<not> (case c of
          Str s \<Rightarrow> CHR ''@'' \<in> set s \<and> CHR ''.'' \<in> set (after_last_at s)
        | _ \<Rightarrow> False)"
  by (cases c) (simp_all add: clean_email_def after_last_at_def last_split_eq)

lemma clean_email_cases: "clean_email c = c \<or> clean_email c = NaN"
  by (simp add: clean_email_def split: cell.splits)

lemma clean_email_kept: "clean_email c \<noteq> NaN \<Longrightarrow> clean_email c = c"
  using clean_email_cases [of c] by auto

lemma valid_gender_not_NaN: "g \<in> set valid_genders \<Longrightarrow> g \<noteq> NaN"
  by (auto simp: valid_genders_def)

lemma numeric_not_isna: "(case c of Num a \<Rightarrow> p a | _ \<Rightarrow> False) \<Longrightarrow> \<not> isna c"
  by (cases c) (simp_all add: isna_def)

lemma clean_gender_valid: "g \<in> set valid_genders \<Longrightarrow> clean_gender g = g"
  by (simp add: clean_gender_def)

lemma clean_gender_invalid: "g \<notin> set valid_genders \<Longrightarrow> clean_gender g = NaN"
  by (simp add: clean_gender_def)

lemma isna_simps: "isna NaN" "\<not> isna (Num x)" "\<not> isna (Str s)"
  by (simp_all add: isna_def)

text \<open>One row through the pipeline of \<^verbatim>\<open>clean_data\<close>: it is dropped or leaves cleaned.\<close>

lemma clean_data_Cons:
  "clean_data parse to_datetime now ((i, r) # data) =
     (if survives parse to_datetime now r
      then (i, cleaned_row parse to_datetime r) # clean_data parse to_datetime now data
      else clean_data parse to_datetime now data)"
proof -
  let ?A = "case to_numeric parse (age r) of Num a \<Rightarrow> 0 \<le> a | _ \<Rightarrow> False"
  let ?T = "case column_to_datetime to_datetime (timestamp r) of Time t \<Rightarrow> t \<le> now | _ \<Rightarrow> False"
  let ?E = "clean_email (email r) \<noteq> NaN"
  let ?G = "gender r \<in> set valid_genders"
  have s: "survives parse to_datetime now r \<longleftrightarrow> ?A \<and> ?T \<and> ?E \<and> ?G"
    unfolding clean_email_NaN_iff by (simp add: survives_def)
  show ?thesis
  proof (cases ?A)
    case False
    then show ?thesis
      unfolding clean_data_def Let_def coerce_frame_def by (simp add: s)
  next
    case A: True
    then have A': "\<not> isna (to_numeric parse (age r))"
      by (rule numeric_not_isna)
    show ?thesis
    proof (cases ?T)
      case False
      with A A' show ?thesis
        unfolding clean_data_def Let_def coerce_frame_def by (simp add: s)
    next
      case T: True
      show ?thesis
      proof (cases ?E)
        case False
        with A A' T show ?thesis
          unfolding clean_data_def Let_def coerce_frame_def by (simp add: s isna_simps)
      next
        case E: True
        have E': "clean_email (email r) = email r" "\<not> isna (email r)"
          using E clean_email_kept [OF E] by (simp_all add: isna_NaN)
        show ?thesis
        proof (cases ?G)
          case False
          with A A' T E E' show ?thesis
            unfolding clean_data_def Let_def coerce_frame_def
            by (simp add: s isna_simps clean_gender_invalid)
        next
          case G: True
          then have G': "clean_gender (gender r) = gender r" "\<not> isna (gender r)"
            by (simp_all add: clean_gender_valid isna_NaN valid_gender_not_NaN)
          from A A' T E E' G G' show ?thesis
            unfolding clean_data_def Let_def coerce_frame_def
            by (simp add: s cleaned_row_def coerce_questions_def)
        qed
      qed
    qed
  qed
qed

lemma clean_data_Nil: "clean_data parse to_datetime now [] = []"
  by (simp add: clean_data_def coerce_frame_def)

text \<open>The pipeline of \<^verbatim>\<open>clean_data\<close> as one filter followed by one map.\<close>

lemma clean_data_filter_map:
  "clean_data parse to_datetime now data =
     map (\<lambda>(i, r). (i, cleaned_row parse to_datetime r))
       (filter (\<lambda>(i, r). survives parse to_datetime now r) data)"
  by (induction data) (auto simp: clean_data_Nil clean_data_Cons)

lemma clean_data_member:
  assumes "(i, r') \<in> set (clean_data parse to_datetime now data)"
  shows "\<exists>r. (i, r) \<in> set data \<and> survives parse to_datetime now r
              \<and> r' = cleaned_row parse to_datetime r"
  using assms unfolding clean_data_filter_map by auto

lemma cleaned_row_columns:
  "age (cleaned_row parse to_datetime r) = to_numeric parse (age r)"
  "timestamp (cleaned_row parse to_datetime r) = column_to_datetime to_datetime (timestamp r)"
  "email (cleaned_row parse to_datetime r) = email r"
  "gender (cleaned_row parse to_datetime r) = gender r"
  by (simp_all add: cleaned_row_def coerce_questions_def)

lemmas clean_eval = clean_data_def Let_def coerce_frame_def coerce_questions_def to_numeric_def
  column_to_datetime_def epoch_def clean_email_def clean_gender_def valid_genders_def isna_def
  raw_record_def clean_record_def no_parse_def

text \<open>
  Claim C3, as stated, fails: an email with two \<^verbatim>\<open>@\<close> stays in the cleaned frame.
\<close>

theorem clean_data_keeps_two_at:
  "clean_data no_parse epoch 10 two_at_frame = two_at_cleaned
   \<and> email (snd (two_at_cleaned ! 0)) = Str ''a@b@c.de''
   \<and> count_list ''a@b@c.de'' CHR ''@'' = 2"
  by (simp add: clean_eval two_at_frame_def two_at_cleaned_def)

text \<open>
  Claim C3, amended. Every row of the frame that \<^verbatim>\<open>clean_data\<close> returns has a numeric age
  that is not negative, a timestamp not later than the moment of cleaning, a gender among
  Male, Female, Other and Fluid, and an email that is a string with at least one
  \<^verbatim>\<open>@\<close> whose part after the last \<^verbatim>\<open>@\<close> contains a dot. The rows returned are,
  in order and under their labels, the rows of the input that pass these four tests; the
  tests do not read q1 to q5, so no value of an answer drops a row.
\<close>

theorem clean_data_rows:
  "(\<forall>(i, r) \<in> set (clean_data parse to_datetime now data).
      (\<exists>a. age r = Num a \<and> 0 \<le> a)
      \<and> (\<exists>t. timestamp r = Time t \<and> t \<le> now)
      \<and> gender r \<in> set valid_genders
      \<and> (\<exists>s. email r = Str s \<and> CHR ''@'' \<in> set s \<and> CHR ''.'' \<in> set (after_last_at s)))
   \<and> map fst (clean_data parse to_datetime now data)
       = map fst (filter (\<lambda>(i, r). survives parse to_datetime now r) data)
   \<and> (\<forall>r a b c d e.
        survives parse to_datetime now (r\<lparr>q1 := a, q2 := b, q3 := c, q4 := d, q5 := e\<rparr>)
          = survives parse to_datetime now r)"
proof (intro conjI ballI allI)
  fix x assume x: "x \<in> set (clean_data parse to_datetime now data)"
  obtain i r' where ir: "x = (i, r')"
    by (cases x)
  from x ir clean_data_member obtain r where
    s: "survives parse to_datetime now r" and r': "r' = cleaned_row parse to_datetime r"
    by blast
  from s have "\<exists>a. to_numeric parse (age r) = Num a \<and> 0 \<le> a"
    by (cases "to_numeric parse (age r)") (simp_all add: survives_def)
  moreover from s have "\<exists>t. column_to_datetime to_datetime (timestamp r) = Time t \<and> t \<le> now"
    by (cases "column_to_datetime to_datetime (timestamp r)") (simp_all add: survives_def)
  moreover from s have g: "gender r \<in> set valid_genders"
    by (simp add: survives_def)
  moreover from s have
    "\<exists>s. email r = Str s \<and> CHR ''@'' \<in> set s \<and> CHR ''.'' \<in> set (after_last_at s)"
    by (cases "email r") (simp_all add: survives_def)
  ultimately show "case x of (i, r) \<Rightarrow>
      (\<exists>a. age r = Num a \<and> 0 \<le> a)
      \<and> (\<exists>t. timestamp r = Time t \<and> t \<le> now)
      \<and> gender r \<in> set valid_genders
      \<and> (\<exists>s. email r = Str s \<and> CHR ''@'' \<in> set s \<and> CHR ''.'' \<in> set (after_last_at s))"
    unfolding ir r' by (simp add: cleaned_row_columns)
next
  show "map fst (clean_data parse to_datetime now data)
       = map fst (filter (\<lambda>(i, r). survives parse to_datetime now r) data)"
    unfolding clean_data_filter_map by (simp add: case_prod_unfold comp_def)
next
  fix r a b c d e
  show "survives parse to_datetime now (r\<lparr>q1 := a, q2 := b, q3 := c, q4 := d, q5 := e\<rparr>)
          = survives parse to_datetime now r"
    by (simp add: survives_def)
qed

theorem clean_data_rows_witness:
  "clean_data no_parse epoch 10 raw_frame = raw_cleaned
   \<and> (10, clean_record (Num 0) 10 (Str ''jo@example.org'') (Str ''Fluid'') NaN) \<in> set raw_cleaned
   \<and> (\<exists>a. age (clean_record (Num 0) 10 (Str ''jo@example.org'') (Str ''Fluid'') NaN) = Num a \<and> 0 \<le> a)
   \<and> (\<exists>t. timestamp (clean_record (Num 0) 10 (Str ''jo@example.org'') (Str ''Fluid'') NaN) = Time t
          \<and> t \<le> 10)
   \<and> map fst raw_cleaned = [0, 10]"
proof -
  let ?jo = "clean_record (Num 0) 10 (Str ''jo@example.org'') (Str ''Fluid'') NaN"
  have ret: "clean_data no_parse epoch 10 raw_frame = raw_cleaned"
    by (simp add: clean_eval raw_frame_def raw_cleaned_def)
  have mem: "(10, ?jo) \<in> set (clean_data no_parse epoch 10 raw_frame)"
    unfolding ret by (simp add: raw_cleaned_def)
  from clean_data_rows [of no_parse epoch 10 raw_frame] mem
  have "(\<exists>a. age ?jo = Num a \<and> 0 \<le> a) \<and> (\<exists>t. timestamp ?jo = Time t \<and> t \<le> 10)"
    by fast
  moreover have "map fst raw_cleaned = [0, 10]"
    by (simp add: raw_cleaned_def)
  ultimately show ?thesis
    using ret mem by simp
qed

section \<open>The groups of the correlation table\<close>

lemma coerced_age: "age (coerce_questions parse r) = age r"
  by (simp add: coerce_questions_def)

lemma group_rows_Nil: "group_rows k [] = []"
  by (simp add: group_rows_def)

lemma group_rows_Cons:
  "group_rows k ((k', r) # keyed) = (if k' = k then r # group_rows k keyed else group_rows k keyed)"
  by (simp add: group_rows_def)

lemma group_rows_members:
  "group_rows (g, b)
     (map (\<lambda>(i, r). ((gender r, above_40 (age r)), r))
        (filter (\<lambda>(i, r). \<not> isna (age r))
           (map (\<lambda>(i, r). (i, r\<lparr>age := to_numeric parse (age r)\<rparr>)) (coerce_frame parse df))))
   = group_members parse df g b"
proof (induction df)
  case Nil
  show ?case
    by (simp add: group_rows_Nil group_members_def coerce_frame_def)
next
  case (Cons a df)
  obtain i r where a: "a = (i, r)"
    by (cases a)
  let ?r = "(coerce_questions parse r)\<lparr>age := to_numeric parse (age r)\<rparr>"
  have m: "group_members parse (a # df) g b =
      (if \<not> isna (age ?r) \<and> gender ?r = g \<and> above_40 (age ?r) = b
       then ?r # group_members parse df g b else group_members parse df g b)"
    by (simp add: group_members_def a)
  have c: "coerce_frame parse (a # df) = (i, coerce_questions parse r) # coerce_frame parse df"
    by (simp add: coerce_frame_def a)
  show ?case
    unfolding m c using Cons.IH
    by (simp add: group_rows_Cons coerced_age)
qed

lemma correlate_gender_age_Some:
  "correlate_gender_age parse (Some df) =
     Inr (map (\<lambda>(i, r). (i, r\<lparr>age := to_numeric parse (age r)\<rparr>)) (coerce_frame parse df),
          groupby_mean
            (map (\<lambda>(i, r). ((gender r, above_40 (age r)), r))
               (filter (\<lambda>(i, r). \<not> isna (age r))
                  (map (\<lambda>(i, r). (i, r\<lparr>age := to_numeric parse (age r)\<rparr>))
                     (coerce_frame parse df)))))"
  by (simp add: correlate_gender_age_def Let_def)

lemmas group_eval = correlate_gender_age_Some coerce_frame_def coerce_questions_def
  to_numeric_def isna_def above_40_def person_def

text \<open>
  Claim C8, as stated, fails: a row with an age and no gender is not excluded for its age,
  and its group, keyed by the missing gender, is not in the table.
\<close>

theorem correlate_gender_age_drops_missing_gender:
  "correlate_gender_age no_parse (Some nameless_frame)
     = Inr (nameless_frame, groupby_mean nameless_keyed)
   \<and> \<not> isna (age (snd (nameless_frame ! 0)))
   \<and> groupby_mean nameless_keyed (NaN, False) = None"
  by (simp add: group_eval nameless_frame_def nameless_keyed_def groupby_mean_def)

text \<open>
  Claim C8, amended. \<^verbatim>\<open>correlate_gender_age\<close> leaves out every row with a missing age
  and every row with a missing gender, groups the other rows by gender and by whether the
  age is above 40, and returns for each group that has a member the mean of each of q1 to
  q5 over the group, each column skipping its own missing answers (a column with no answer
  in the group has no mean); a group without a member is not in the table. A Male subject
  aged 45 with q1 = 80 and a Male subject aged 20 with q1 = 60 give two groups, with q1
  means 80 and 60.
\<close>

theorem correlate_gender_age_groups:
  "(\<exists>self_data tab.
      correlate_gender_age parse (Some df) = Inr (self_data, tab)
      \<and> (\<forall>g b. tab (g, b) =
            (if g = NaN \<or> group_members parse df g b = [] then None
             else Some (map (\<lambda>col. mean (map col (group_members parse df g b)))
                          [q1, q2, q3, q4, q5]))))
   \<and> correlate_gender_age no_parse (Some two_males_frame)
       = Inr (two_males_frame, groupby_mean two_males_keyed)
   \<and> groupby_mean two_males_keyed (Str ''Male'', True) = Some [Some 80, None, None, None, None]
   \<and> groupby_mean two_males_keyed (Str ''Male'', False) = Some [Some 60, None, None, None, None]"
proof (intro conjI)
  let ?keyed = "map (\<lambda>(i, r). ((gender r, above_40 (age r)), r))
               (filter (\<lambda>(i, r). \<not> isna (age r))
                  (map (\<lambda>(i, r). (i, r\<lparr>age := to_numeric parse (age r)\<rparr>))
                     (coerce_frame parse df)))"
  have "groupby_mean ?keyed (g, b) =
            (if g = NaN \<or> group_members parse df g b = [] then None
             else Some (map (\<lambda>col. mean (map col (group_members parse df g b)))
                          [q1, q2, q3, q4, q5]))" for g b
    unfolding groupby_mean_def group_rows_members
    by (cases "group_members parse df g b") (simp_all add: isna_NaN)
  then show "\<exists>self_data tab.
      correlate_gender_age parse (Some df) = Inr (self_data, tab)
      \<and> (\<forall>g b. tab (g, b) =
            (if g = NaN \<or> group_members parse df g b = [] then None
             else Some (map (\<lambda>col. mean (map col (group_members parse df g b)))
                          [q1, q2, q3, q4, q5])))"
    unfolding correlate_gender_age_Some by blast
next
  show "correlate_gender_age no_parse (Some two_males_frame)
       = Inr (two_males_frame, groupby_mean two_males_keyed)"
    by (simp add: group_eval two_males_frame_def two_males_keyed_def)
next
  show "groupby_mean two_males_keyed (Str ''Male'', True) = Some [Some 80, None, None, None, None]"
    by (simp add: groupby_mean_def group_rows_def two_males_keyed_def person_def mean_def isna_def)
next
  show "groupby_mean two_males_keyed (Str ''Male'', False) = Some [Some 60, None, None, None, None]"
    by (simp add: groupby_mean_def group_rows_def two_males_keyed_def person_def mean_def isna_def)
qed

theorem correlate_gender_age_groups_witness:
  "(\<exists>self_data tab.
      correlate_gender_age no_parse (Some groups_frame) = Inr (self_data, tab)
      \<and> tab (Str ''Male'', True) = Some [Some 85, Some 60, None, None, None]
      \<and> tab (Str ''Male'', False) = Some [Some 60, Some 70, None, None, None]
      \<and> tab (Str ''Female'', False) = None
      \<and> tab (Str ''Female'', True) = None)"
proof -
  from correlate_gender_age_groups [of no_parse groups_frame] obtain self_data tab where
    ret: "correlate_gender_age no_parse (Some groups_frame) = Inr (self_data, tab)"
    and tab: "\<And>g b. tab (g, b) =
            (if g = NaN \<or> group_members no_parse groups_frame g b = [] then None
             else Some (map (\<lambda>col. mean (map col (group_members no_parse groups_frame g b)))
                          [q1, q2, q3, q4, q5]))"
    by blast
  have old: "group_members no_parse groups_frame (Str ''Male'') True =
      [person (Str ''Male'') (Num 45) (Num 80) NaN,
       person (Str ''Male'') (Num 50) (Num 90) (Num 70),
       person (Str ''Male'') (Num 41) NaN (Num 50)]"
    by (simp add: group_members_def groups_frame_def person_def coerce_questions_def
        to_numeric_def isna_def above_40_def)
  have young: "group_members no_parse groups_frame (Str ''Male'') False =
      [person (Str ''Male'') (Num 20) (Num 60) (Num 70)]"
    by (simp add: group_members_def groups_frame_def person_def coerce_questions_def
        to_numeric_def isna_def above_40_def)
  have none: "group_members no_parse groups_frame (Str ''Female'') False = []"
    "group_members no_parse groups_frame (Str ''Female'') True = []"
    by (simp_all add: group_members_def groups_frame_def person_def coerce_questions_def
        to_numeric_def isna_def above_40_def)
  have "tab (Str ''Male'', True) = Some [Some 85, Some 60, None, None, None]"
    unfolding tab old by (simp add: person_def mean_def)
  moreover have "tab (Str ''Male'', False) = Some [Some 60, Some 70, None, None, None]"
    unfolding tab young by (simp add: person_def mean_def)
  moreover have "tab (Str ''Female'', False) = None" "tab (Str ''Female'', True) = None"
    unfolding tab none by simp_all
  ultimately show ?thesis
    using ret by blast
qed

end
